theory Spec2Isabelle
  imports Complex_Main "HOL-Library.Log_Nat"
begin

section \<open>Python values\<close>

text \<open>
  The services exchange plain Python values: the body of the fact-check API's answer is
  whatever \<^verbatim>\<open>response.json()\<close> decodes, and the evidence items built from it are
  dictionaries whose fields hold such values unchecked. A decoded value is a \<open>json\<close>; a
  dictionary is an association list read with \<open>map_of\<close>. Numbers are never inspected by
  the code, only passed on.

  A Python \<^verbatim>\<open>str\<close> is a \<open>string\<close>, a list of 8-bit characters: ASCII text, a
  character beyond ASCII being its UTF-8 bytes. The only string operations of the code
  are \<^verbatim>\<open>str.lower\<close>, the substring test \<^verbatim>\<open>in\<close> against lower-case ASCII patterns
  and the slice \<^verbatim>\<open>text[:100]\<close>; \<open>lower\<close> folds the ASCII capitals, as
  \<^verbatim>\<open>str.lower\<close> does, and leaves every other character.
\<close>

datatype json =
    JNull
  | JBool bool
  | JNum rat
  | JStr string
  | JArr "json list"
  | JObj "(string \<times> json) list"

datatype exn =
    AttributeError
  | TypeError
  | JSONDecodeError
  | TimeoutException
  | TransportError
  | ValidationError
  | ModelError

definition lower_char :: "char \<Rightarrow> char" where
  "lower_char c =
     (let n = (of_char c :: nat) in if 65 \<le> n \<and> n \<le> 90 then char_of (n + 32) else c)"

definition lower :: "string \<Rightarrow> string" where
  "lower s = map lower_char s"

text \<open>\<^verbatim>\<open>s.startswith(p)\<close> and \<^verbatim>\<open>p in s\<close> on strings.\<close>

fun startswith :: "string \<Rightarrow> string \<Rightarrow> bool" where
  "startswith s [] = True"
| "startswith [] (p # ps) = False"
| "startswith (c # s) (p # ps) = (c = p \<and> startswith s ps)"

fun py_in :: "string \<Rightarrow> string \<Rightarrow> bool" where
  "py_in p [] = (p = [])"
| "py_in p (c # s) = (startswith (c # s) p \<or> py_in p s)"

section \<open>Evidence items and the rating counts of \<open>synthesize\<close>\<close>

text \<open>
  One item of \<^verbatim>\<open>fact_checks\<close>, as \<^verbatim>\<open>check_claims\<close> builds it: a dictionary with
  exactly the five keys below.
\<close>

record fact_check =
  claim :: json
  claimant :: json
  rating :: json
  source :: json
  url :: json

definition false_ratings :: "string list" where
  "false_ratings = [''false'', ''pants on fire'', ''mostly false'']"

definition true_ratings :: "string list" where
  "true_ratings = [''true'', ''mostly true'', ''correct'']"

text \<open>
  The condition of the two generator expressions,
  \<^verbatim>\<open>any(rating in fc['rating'].lower() for rating in ratings)\<close>.
  A rating that is not a \<^verbatim>\<open>str\<close> has no \<^verbatim>\<open>lower\<close>: AttributeError.
\<close>

definition rating_matches :: "string list \<Rightarrow> fact_check \<Rightarrow> exn + bool" where
  "rating_matches ratings fc =
     (case rating fc of
        JStr r \<Rightarrow> Inr (list_ex (\<lambda>p. py_in p (lower r)) ratings)
      | _ \<Rightarrow> Inl AttributeError)"

text \<open>\<^verbatim>\<open>sum(1 for fc in fact_checks if any(...))\<close>: the items are visited in order, and the
  first item whose rating is not a string raises.\<close>

fun count_matching :: "string list \<Rightarrow> fact_check list \<Rightarrow> nat \<Rightarrow> exn + nat" where
  "count_matching ratings [] acc = Inr acc"
| "count_matching ratings (fc # fcs) acc =
     (case rating_matches ratings fc of
        Inl e \<Rightarrow> Inl e
      | Inr b \<Rightarrow> count_matching ratings fcs (if b then acc + 1 else acc))"

definition false_count_of :: "fact_check list \<Rightarrow> exn + nat" where
  "false_count_of fact_checks = count_matching false_ratings fact_checks 0"

definition true_count_of :: "fact_check list \<Rightarrow> exn + nat" where
  "true_count_of fact_checks = count_matching true_ratings fact_checks 0"

text \<open>An item with the given rating text, for stating examples.\<close>

definition rated :: "string \<Rightarrow> fact_check" where
  "rated r = \<lparr>claim = JStr ''a claim'', claimant = JStr ''Unknown'', rating = JStr r,
              source = JStr ''Unknown'', url = JNull\<rparr>"

definition is_str :: "json \<Rightarrow> bool" where
  "is_str j = (case j of JStr _ \<Rightarrow> True | _ \<Rightarrow> False)"

text \<open>What one item says, for items whose rating is a string.\<close>

definition says :: "string list \<Rightarrow> fact_check \<Rightarrow> bool" where
  "says ratings fc = (rating_matches ratings fc = Inr True)"

section \<open>Python floats\<close>

text \<open>
  A finite Python \<^verbatim>\<open>float\<close> is an IEEE 754 binary64 number and is modelled by its
  exact rational value. Comparisons are exact. Every arithmetic operation, the reading
  of a decimal literal and the conversion of an \<^verbatim>\<open>int\<close> compute the exact result and
  round it once with \<open>fl\<close>: to the nearest number with a 53-bit significand, a tie going
  to the even significand, on the subnormal grid \<open>2 powi (-1074)\<close> below
  \<open>2 powi (-1022)\<close>. Infinities and NaN are not values of the model, and overflow (a
  result of magnitude \<open>2 powi 1024\<close> or more) is outside it: the only unbounded operand
  below is the conversion of a count, which is at most the length of a Python list and
  so below \<open>2 ^ 63\<close>.
\<close>

type_synonym pyfloat = rat

text \<open>Round to the nearest integer, a tie to the even one.\<close>

definition round_half_even :: "rat \<Rightarrow> int" where
  "round_half_even y =
     (let f = \<lfloor>y\<rfloor>; r = y - of_int f in
      if r < 1 / 2 then f else if 1 / 2 < r then f + 1 else if even f then f else f + 1)"

text \<open>The binary exponent \<open>e\<close> of \<open>x \<noteq> 0\<close>: \<open>2 powi e \<le> \<bar>x\<bar> < 2 powi (e + 1)\<close>.\<close>

definition ilog2 :: "rat \<Rightarrow> int" where
  "ilog2 x =
     (let (p, q) = quotient_of \<bar>x\<bar>; d = bitlen p - bitlen q in
      if 2 powi d \<le> \<bar>x\<bar> then d else d - 1)"

definition fl :: "rat \<Rightarrow> pyfloat" where
  "fl x =
     (if x = 0 then 0
      else let u = 2 powi (max (ilog2 x) (- 1022) - 52) in of_int (round_half_even (x / u)) * u)"

text \<open>A decimal literal of the source, \<^verbatim>\<open>float(n)\<close> of a count, \<^verbatim>\<open>a + b\<close>,
  \<^verbatim>\<open>a * b\<close> and \<^verbatim>\<open>min(a, b)\<close> (which returns \<open>a\<close> unless \<open>b\<close> is smaller).\<close>

definition float_lit :: "rat \<Rightarrow> pyfloat" where
  "float_lit d = fl d"

definition float_of_nat :: "nat \<Rightarrow> pyfloat" where
  "float_of_nat n = fl (of_nat n)"

definition fadd :: "pyfloat \<Rightarrow> pyfloat \<Rightarrow> pyfloat" where
  "fadd a b = fl (a + b)"

definition fmul :: "pyfloat \<Rightarrow> pyfloat \<Rightarrow> pyfloat" where
  "fmul a b = fl (a * b)"

definition py_min :: "pyfloat \<Rightarrow> pyfloat \<Rightarrow> pyfloat" where
  "py_min a b = (if b < a then b else a)"

section \<open>The synthesis service\<close>

text \<open>
  The returned dictionary has the keys \<open>verdict\<close>, \<open>confidence\<close> and \<open>reasoning\<close>. The
  reasoning is an f-string; it is kept as its template and the values formatted into
  it, one constructor for each of the seven \<^verbatim>\<open>return\<close> statements of \<^verbatim>\<open>synthesize\<close>,
  in the order of the source.
\<close>

datatype reasoning =
    RatedFalse nat
  | ConfirmedTrue nat
  | MixedSignals string pyfloat
  | Conflicting
  | NoFactChecksHigh string pyfloat
  | NoFactChecksLikely string pyfloat
  | NeedsInvestigation pyfloat

record synthesis =
  verdict :: string
  confidence :: pyfloat
  reasoning :: reasoning

text \<open>
  The four \<^verbatim>\<open>if\<close> statements under \<^verbatim>\<open>if fact_checks:\<close>, after the two counts.
  \<open>None\<close> is the case that none of them returns, where control leaves the block and
  reaches the rules below it.
\<close>

definition evidence_rules :: "string \<Rightarrow> pyfloat \<Rightarrow> nat \<Rightarrow> nat \<Rightarrow> synthesis option" where
  "evidence_rules ml_prediction ml_confidence false_count true_count =
     (if false_count > true_count \<and> false_count > 0 then
        Some \<lparr>verdict = ''FAKE'',
              confidence = py_min (float_lit (95 / 100))
                 (fadd (float_lit (7 / 10)) (fmul (float_of_nat false_count) (float_lit (1 / 10)))),
              reasoning = RatedFalse false_count\<rparr>
      else if true_count > false_count \<and> true_count > 0 then
        Some \<lparr>verdict = ''REAL'',
              confidence = py_min (float_lit (95 / 100))
                 (fadd (float_lit (7 / 10)) (fmul (float_of_nat true_count) (float_lit (1 / 10)))),
              reasoning = ConfirmedTrue true_count\<rparr>
      else if false_count = true_count \<and> ml_confidence > float_lit (8 / 10) then
        Some \<lparr>verdict = ml_prediction,
              confidence = fmul ml_confidence (float_lit (85 / 100)),
              reasoning = MixedSignals ml_prediction ml_confidence\<rparr>
      else if false_count = true_count then
        Some \<lparr>verdict = ''UNCERTAIN'',
              confidence = float_lit (5 / 10),
              reasoning = Conflicting\<rparr>
      else None)"

text \<open>The rest of the function: the rules on the classifier's confidence alone.\<close>

definition ml_rules :: "string \<Rightarrow> pyfloat \<Rightarrow> synthesis" where
  "ml_rules ml_prediction ml_confidence =
     (if ml_confidence > float_lit (85 / 100) then
        \<lparr>verdict = ml_prediction, confidence = ml_confidence,
         reasoning = NoFactChecksHigh ml_prediction ml_confidence\<rparr>
      else if ml_confidence > float_lit (65 / 100) then
        \<lparr>verdict = ml_prediction, confidence = ml_confidence,
         reasoning = NoFactChecksLikely ml_prediction ml_confidence\<rparr>
      else
        \<lparr>verdict = ''UNCERTAIN'', confidence = ml_confidence,
         reasoning = NeedsInvestigation ml_confidence\<rparr>)"

text \<open>
  The cascade as a function of the two counts and of whether \<^verbatim>\<open>fact_checks\<close> is
  non-empty; \<open>synthesize\<close> is the source function, which computes the counts itself and
  only when the list is non-empty.
\<close>

definition decide :: "string \<Rightarrow> pyfloat \<Rightarrow> bool \<Rightarrow> nat \<Rightarrow> nat \<Rightarrow> synthesis" where
  "decide ml_prediction ml_confidence has_evidence false_count true_count =
     (if has_evidence then
        (case evidence_rules ml_prediction ml_confidence false_count true_count of
           Some v \<Rightarrow> v
         | None \<Rightarrow> ml_rules ml_prediction ml_confidence)
      else ml_rules ml_prediction ml_confidence)"

definition synthesize :: "string \<Rightarrow> pyfloat \<Rightarrow> fact_check list \<Rightarrow> exn + synthesis" where
  "synthesize ml_prediction ml_confidence fact_checks =
     (if fact_checks \<noteq> [] then
        (case false_count_of fact_checks of
           Inl e \<Rightarrow> Inl e
         | Inr false_count \<Rightarrow>
             (case true_count_of fact_checks of
                Inl e \<Rightarrow> Inl e
              | Inr true_count \<Rightarrow>
                  Inr (decide ml_prediction ml_confidence True false_count true_count)))
      else Inr (decide ml_prediction ml_confidence False 0 0))"

section \<open>The cascade in the words of the specification\<close>

text \<open>
  The seven rules of the specification's decision cascade, each with its guard and with
  the verdict and confidence it prescribes, written from the specification and not from
  the code, for comparison with \<open>decide\<close>.
\<close>

datatype rule = Rule1 | Rule2 | Rule3 | Rule4 | Rule5 | Rule6 | Rule7

fun spec_guard :: "rule \<Rightarrow> pyfloat \<Rightarrow> bool \<Rightarrow> nat \<Rightarrow> nat \<Rightarrow> bool" where
  "spec_guard Rule1 c has_evidence f t = (has_evidence \<and> f > t \<and> f > 0)"
| "spec_guard Rule2 c has_evidence f t = (has_evidence \<and> t > f \<and> t > 0)"
| "spec_guard Rule3 c has_evidence f t = (has_evidence \<and> f = t \<and> c > float_lit (80 / 100))"
| "spec_guard Rule4 c has_evidence f t = (has_evidence \<and> f = t \<and> c \<le> float_lit (80 / 100))"
| "spec_guard Rule5 c has_evidence f t = (\<not> has_evidence \<and> c > float_lit (85 / 100))"
| "spec_guard Rule6 c has_evidence f t =
     (\<not> has_evidence \<and> float_lit (65 / 100) < c \<and> c \<le> float_lit (85 / 100))"
| "spec_guard Rule7 c has_evidence f t = (\<not> has_evidence \<and> c \<le> float_lit (65 / 100))"

fun spec_verdict :: "rule \<Rightarrow> string \<Rightarrow> pyfloat \<Rightarrow> nat \<Rightarrow> nat \<Rightarrow> string \<times> pyfloat" where
  "spec_verdict Rule1 l c f t =
     (''FAKE'', py_min (float_lit (95 / 100))
        (fadd (float_lit (70 / 100)) (fmul (float_lit (10 / 100)) (float_of_nat f))))"
| "spec_verdict Rule2 l c f t =
     (''REAL'', py_min (float_lit (95 / 100))
        (fadd (float_lit (70 / 100)) (fmul (float_lit (10 / 100)) (float_of_nat t))))"
| "spec_verdict Rule3 l c f t = (l, fmul c (float_lit (85 / 100)))"
| "spec_verdict Rule4 l c f t = (''UNCERTAIN'', float_lit (5 / 10))"
| "spec_verdict Rule5 l c f t = (l, c)"
| "spec_verdict Rule6 l c f t = (l, c)"
| "spec_verdict Rule7 l c f t = (''UNCERTAIN'', c)"

section \<open>The fact-check service\<close>

text \<open>
  \<^verbatim>\<open>__init__\<close> reads the key with \<^verbatim>\<open>os.getenv("GOOGLE_FACT_CHECK_API_KEY", "")\<close>; the
  argument is the variable's value, \<open>None\<close> when it is unset.
\<close>

definition api_key_of_env :: "string option \<Rightarrow> string" where
  "api_key_of_env env = (case env of None \<Rightarrow> [] | Some v \<Rightarrow> v)"

text \<open>
  The one request \<^verbatim>\<open>check_claims\<close> can send, and what \<^verbatim>\<open>client.get\<close> does with it:
  it raises (\<open>TimeoutException\<close> after the 10 seconds, or another error of the transport),
  or it returns a response with a status code and a body, which \<^verbatim>\<open>response.json()\<close>
  decodes or not (\<open>None\<close>). The external API is a function from requests to such
  outcomes.
\<close>

record request =
  query :: string
  key :: string
  languageCode :: string

datatype http_outcome = Raises exn | Response nat "json option"

text \<open>\<^verbatim>\<open>d.get(k, dflt)\<close> on a dictionary.\<close>

definition dict_get :: "(string \<times> json) list \<Rightarrow> string \<Rightarrow> json \<Rightarrow> json" where
  "dict_get d k dflt = (case map_of d k of Some v \<Rightarrow> v | None \<Rightarrow> dflt)"

text \<open>
  What a \<^verbatim>\<open>for\<close> loop iterates over: the elements of a list, the characters of a
  string, the keys of a dictionary; anything else is not iterable. \<open>slice5\<close> is
  \<^verbatim>\<open>v[:5]\<close> followed by that iteration; only lists and strings can be sliced.
\<close>

definition iterate :: "json \<Rightarrow> exn + json list" where
  "iterate v =
     (case v of
        JArr xs \<Rightarrow> Inr xs
      | JStr s \<Rightarrow> Inr (map (\<lambda>c. JStr [c]) s)
      | JObj d \<Rightarrow> Inr (map (\<lambda>kv. JStr (fst kv)) d)
      | _ \<Rightarrow> Inl TypeError)"

definition slice5 :: "json \<Rightarrow> exn + json list" where
  "slice5 v =
     (case v of
        JArr xs \<Rightarrow> Inr (take 5 xs)
      | JStr s \<Rightarrow> Inr (map (\<lambda>c. JStr [c]) (take 5 s))
      | _ \<Rightarrow> Inl TypeError)"

text \<open>
  The inner loop over the reviews of one claim (a dictionary): each review must be a
  dictionary, and so must its publisher; \<^verbatim>\<open>get\<close> on anything else is an
  AttributeError.
\<close>

fun reviews_loop :: "(string \<times> json) list \<Rightarrow> json list \<Rightarrow> exn + fact_check list" where
  "reviews_loop cl [] = Inr []"
| "reviews_loop cl (review # rest) =
     (case review of
        JObj rv \<Rightarrow>
          (case dict_get rv ''publisher'' (JObj []) of
             JObj publisher \<Rightarrow>
               (case reviews_loop cl rest of
                  Inl e \<Rightarrow> Inl e
                | Inr items \<Rightarrow>
                    Inr (\<lparr>claim = dict_get cl ''text'' (JStr []),
                          claimant = dict_get cl ''claimant'' (JStr ''Unknown''),
                          rating = dict_get rv ''textualRating'' (JStr ''Unknown''),
                          source = dict_get publisher ''name'' (JStr ''Unknown''),
                          url = dict_get rv ''url'' JNull\<rparr> # items))
           | _ \<Rightarrow> Inl AttributeError)
      | _ \<Rightarrow> Inl AttributeError)"

fun claims_loop :: "json list \<Rightarrow> exn + fact_check list" where
  "claims_loop [] = Inr []"
| "claims_loop (c # cs) =
     (case c of
        JObj cl \<Rightarrow>
          (case iterate (dict_get cl ''claimReview'' (JArr [])) of
             Inl e \<Rightarrow> Inl e
           | Inr reviews \<Rightarrow>
               (case reviews_loop cl reviews of
                  Inl e \<Rightarrow> Inl e
                | Inr items \<Rightarrow>
                    (case claims_loop cs of
                       Inl e \<Rightarrow> Inl e
                     | Inr others \<Rightarrow> Inr (items @ others))))
      | _ \<Rightarrow> Inl AttributeError)"

text \<open>
  \<^verbatim>\<open>if "claims" in data: for claim in data["claims"][:5]: ...\<close>. On a list or a
  string \<^verbatim>\<open>in\<close> is membership or the substring test, and the subscript then fails.
\<close>

definition parse_results :: "json \<Rightarrow> exn + fact_check list" where
  "parse_results data =
     (case data of
        JObj d \<Rightarrow>
          (case map_of d ''claims'' of
             None \<Rightarrow> Inr []
           | Some v \<Rightarrow> (case slice5 v of Inl e \<Rightarrow> Inl e | Inr cs \<Rightarrow> claims_loop cs))
      | JArr xs \<Rightarrow> if JStr ''claims'' \<in> set xs then Inl TypeError else Inr []
      | JStr s \<Rightarrow> if py_in ''claims'' s then Inl TypeError else Inr []
      | _ \<Rightarrow> Inl TypeError)"

text \<open>The body of the \<^verbatim>\<open>try\<close> block, for the outcome of the request.\<close>

definition read_response :: "http_outcome \<Rightarrow> exn + fact_check list" where
  "read_response outcome =
     (case outcome of
        Raises e \<Rightarrow> Inl e
      | Response status_code body \<Rightarrow>
          if status_code \<noteq> 200 then Inr []
          else (case body of None \<Rightarrow> Inl JSONDecodeError | Some data \<Rightarrow> parse_results data))"

text \<open>
  The retrieval has failed when the request raised (a timeout or any other error) or
  the response is not a success.
\<close>

definition retrieval_failed :: "http_outcome \<Rightarrow> bool" where
  "retrieval_failed outcome =
     (case outcome of Raises e \<Rightarrow> True | Response status_code body \<Rightarrow> status_code \<noteq> 200)"

definition the_request :: "string \<Rightarrow> string \<Rightarrow> request" where
  "the_request api_key text = \<lparr>query = take 100 text, key = api_key, languageCode = ''en''\<rparr>"

text \<open>
  \<open>check_claims\<close> returns the evidence list together with the requests it has sent to
  the external API. Both \<^verbatim>\<open>except\<close> clauses return the empty list.
\<close>

definition check_claims ::
  "string \<Rightarrow> (request \<Rightarrow> http_outcome) \<Rightarrow> string \<Rightarrow> fact_check list \<times> request list" where
  "check_claims api_key api text =
     (if api_key = [] \<or> api_key = ''your_api_key_here'' then ([], [])
      else
        (case read_response (api (the_request api_key text)) of
           Inl e \<Rightarrow> ([], [the_request api_key text])
         | Inr found \<Rightarrow> (found, [the_request api_key text])))"

section \<open>The classifier service\<close>

text \<open>
  The model itself is external. \<^verbatim>\<open>predict\<close> first loads it unless it is loaded
  (\<open>load_error\<close> is the exception \<^verbatim>\<open>initialize\<close> raises, if any), then runs the
  inference, which raises or yields the predicted class with its probability; both
  \<^verbatim>\<open>except\<close> clauses log and re-raise. Class 1 is REAL, any other class FAKE.
  Of the returned dictionary the keys \<^verbatim>\<open>prediction\<close> and \<^verbatim>\<open>confidence\<close> are kept
  (the latter as \<open>prediction_confidence\<close>).
\<close>

record ml_result =
  prediction :: string
  prediction_confidence :: pyfloat

definition predict :: "bool \<Rightarrow> exn option \<Rightarrow> exn + nat \<times> pyfloat \<Rightarrow> exn + ml_result" where
  "predict initialized load_error inference =
     (case (if initialized then None else load_error) of
        Some e \<Rightarrow> Inl e
      | None \<Rightarrow>
          (case inference of
             Inl e \<Rightarrow> Inl e
           | Inr (pred_class, p) \<Rightarrow>
               Inr \<lparr>prediction = (if pred_class = 1 then ''REAL'' else ''FAKE''),
                    prediction_confidence = p\<rparr>))"

section \<open>The analysis endpoint\<close>

text \<open>
  \<open>AnalyzeResponse\<close> extends the synthesis with the classifier's result, the evidence
  and the processing time. Constructing it validates the fields: both confidences lie
  in \<open>[0, 1]\<close> (\<^verbatim>\<open>ge=0, le=1\<close>), and every evidence item is a \<open>FactCheckResult\<close>, whose
  \<open>claim\<close>, \<open>rating\<close> and \<open>source\<close> are strings and whose \<open>claimant\<close> and \<open>url\<close> are
  strings or \<open>None\<close> (the fields are validated as declared; no conversion of other
  values to strings is modelled).
\<close>

record analyze_response = synthesis +
  ml_prediction :: string
  ml_confidence :: pyfloat
  fact_checks :: "fact_check list"
  processing_time_ms :: pyfloat

datatype http_exception = HTTPException nat exn

definition FactCheckResult_ok :: "fact_check \<Rightarrow> bool" where
  "FactCheckResult_ok fc =
     (is_str (claim fc) \<and> (is_str (claimant fc) \<or> claimant fc = JNull) \<and> is_str (rating fc)
      \<and> is_str (source fc) \<and> (is_str (url fc) \<or> url fc = JNull))"

definition AnalyzeResponse ::
  "synthesis \<Rightarrow> ml_result \<Rightarrow> fact_check list \<Rightarrow> pyfloat \<Rightarrow> exn + analyze_response" where
  "AnalyzeResponse final_verdict r fcs processing_time =
     (if 0 \<le> confidence final_verdict \<and> confidence final_verdict \<le> 1
         \<and> 0 \<le> prediction_confidence r \<and> prediction_confidence r \<le> 1
         \<and> list_all FactCheckResult_ok fcs
      then Inr \<lparr>verdict = verdict final_verdict, confidence = confidence final_verdict,
                reasoning = reasoning final_verdict, ml_prediction = prediction r,
                ml_confidence = prediction_confidence r, fact_checks = fcs,
                processing_time_ms = processing_time\<rparr>
      else Inl ValidationError)"

text \<open>Steps 3 and 4 of \<^verbatim>\<open>analyze_text\<close>: synthesize, then build the response.\<close>

definition synthesize_and_respond ::
  "ml_result \<Rightarrow> fact_check list \<Rightarrow> pyfloat \<Rightarrow> exn + analyze_response" where
  "synthesize_and_respond r fcs processing_time =
     (case synthesize (prediction r) (prediction_confidence r) fcs of
        Inl e \<Rightarrow> Inl e
      | Inr final_verdict \<Rightarrow> AnalyzeResponse final_verdict r fcs processing_time)"

text \<open>
  \<open>analyze_text\<close>: the classifier (a function from the text to the outcome of
  \<^verbatim>\<open>predict\<close>), then the fact-check service, then steps 3 and 4; any exception of the
  \<^verbatim>\<open>try\<close> block becomes an \<open>HTTPException\<close> with status 500. The processing time is
  read from the clock and is an argument. The result comes with the requests sent to
  the external API.
\<close>

definition analyze_text ::
  "(string \<Rightarrow> exn + ml_result) \<Rightarrow> string \<Rightarrow> (request \<Rightarrow> http_outcome) \<Rightarrow> pyfloat \<Rightarrow> string
   \<Rightarrow> (http_exception + analyze_response) \<times> request list" where
  "analyze_text ml api_key api processing_time text =
     (case ml text of
        Inl e \<Rightarrow> (Inl (HTTPException 500 e), [])
      | Inr r \<Rightarrow>
          (let (fcs, sent) = check_claims api_key api text in
           (case synthesize_and_respond r fcs processing_time of
              Inl e \<Rightarrow> (Inl (HTTPException 500 e), sent)
            | Inr response \<Rightarrow> (Inr response, sent))))"

section \<open>The rating counts\<close>

lemma rating_matches_str:
  "is_str (rating fc) \<Longrightarrow> rating_matches ratings fc = Inr (says ratings fc)"
  by (auto simp: is_str_def rating_matches_def says_def split: json.splits)

lemma count_matching_str:
  "\<forall>fc \<in> set fcs. is_str (rating fc) \<Longrightarrow>
   count_matching ratings fcs acc = Inr (acc + length (filter (says ratings) fcs))"
  by (induction fcs arbitrary: acc) (simp_all add: rating_matches_str)

lemma false_count_of_str:
  "\<forall>fc \<in> set fcs. is_str (rating fc) \<Longrightarrow>
   false_count_of fcs = Inr (length (filter (says false_ratings) fcs))"
  by (simp add: false_count_of_def count_matching_str)

lemma true_count_of_str:
  "\<forall>fc \<in> set fcs. is_str (rating fc) \<Longrightarrow>
   true_count_of fcs = Inr (length (filter (says true_ratings) fcs))"
  by (simp add: true_count_of_def count_matching_str)

lemma is_str_rated: "is_str (rating (rated r))"
  by (simp add: is_str_def rated_def)

lemma count_matching_append:
  "count_matching ratings (xs @ ys) acc =
     (case count_matching ratings xs acc of
        Inl e \<Rightarrow> Inl e
      | Inr n \<Rightarrow> count_matching ratings ys n)"
  by (induction xs arbitrary: acc) (simp_all split: sum.splits)

lemma count_matching_Suc:
  "count_matching ratings ys (Suc n) =
     (case count_matching ratings ys n of Inl e \<Rightarrow> Inl e | Inr m \<Rightarrow> Inr (Suc m))"
  by (induction ys arbitrary: n) (simp_all split: sum.splits)

lemma count_matching_insert:
  assumes "rating_matches ratings fc = Inr True"
    and "count_matching ratings (xs @ ys) 0 = Inr n"
  shows "count_matching ratings (xs @ fc # ys) 0 = Inr (Suc n)"
  using assms by (auto simp: count_matching_append count_matching_Suc split: sum.splits)

lemma tally_filters:
  "length (filter P xs) + length (filter Q xs) + length (filter (\<lambda>x. \<not> P x \<and> \<not> Q x) xs)
   = length xs + length (filter (\<lambda>x. P x \<and> Q x) xs)"
  by (induction xs) auto

text \<open>
  C1, as claimed: an item whose rating contains a substring of both sets is counted as
  false only. The code has no per-item bucket: the two counts are two independent sums
  over the list, and the rating "Half true, half false" matches in both, so the item
  alone takes \<open>true_count\<close> from 0 to 1 (and \<open>false_count\<close> as well).
\<close>

theorem both_sets_not_false_only:
  "list_ex (\<lambda>p. py_in p (lower ''Half true, half false'')) false_ratings
   \<and> list_ex (\<lambda>p. py_in p (lower ''Half true, half false'')) true_ratings
   \<and> true_count_of [] = Inr 0
   \<and> true_count_of [rated ''Half true, half false''] = Inr 1
   \<and> false_count_of [rated ''Half true, half false''] = Inr 1"
  by code_simp

text \<open>
  C1, amended: an item whose rating string contains (case-insensitively) a substring of
  the falsity set and a substring of the truth set is counted in both sums: wherever it
  stands in the list, it increments \<open>false_count\<close> by one and \<open>true_count\<close> by one.
\<close>

theorem both_sets_counted_in_both:
  assumes "rating fc = JStr r"
    and "list_ex (\<lambda>p. py_in p (lower r)) false_ratings"
    and "list_ex (\<lambda>p. py_in p (lower r)) true_ratings"
    and "false_count_of (xs @ ys) = Inr f"
    and "true_count_of (xs @ ys) = Inr t"
  shows "false_count_of (xs @ fc # ys) = Inr (Suc f) \<and> true_count_of (xs @ fc # ys) = Inr (Suc t)"
proof -
  have "rating_matches false_ratings fc = Inr True" "rating_matches true_ratings fc = Inr True"
    using assms(1-3) by (simp_all add: rating_matches_def)
  then show ?thesis
    using assms(4,5) by (simp add: false_count_of_def true_count_of_def count_matching_insert)
qed

theorem both_sets_counted_in_both_witness:
  "rating (rated ''Half true, half false'') = JStr ''Half true, half false''
   \<and> list_ex (\<lambda>p. py_in p (lower ''Half true, half false'')) false_ratings
   \<and> list_ex (\<lambda>p. py_in p (lower ''Half true, half false'')) true_ratings
   \<and> false_count_of ([rated ''False''] @ [rated ''Unproven'']) = Inr 1
   \<and> true_count_of ([rated ''False''] @ [rated ''Unproven'']) = Inr 0
   \<and> false_count_of ([rated ''False''] @ rated ''Half true, half false'' # [rated ''Unproven''])
       = Inr (Suc 1)
   \<and> true_count_of ([rated ''False''] @ rated ''Half true, half false'' # [rated ''Unproven''])
       = Inr (Suc 0)"
proof -
  have h1: "rating (rated ''Half true, half false'') = JStr ''Half true, half false''"
    by (simp add: rated_def)
  have h2: "list_ex (\<lambda>p. py_in p (lower ''Half true, half false'')) false_ratings"
    by code_simp
  have h3: "list_ex (\<lambda>p. py_in p (lower ''Half true, half false'')) true_ratings"
    by code_simp
  have h4: "false_count_of ([rated ''False''] @ [rated ''Unproven'']) = Inr 1"
    by code_simp
  have h5: "true_count_of ([rated ''False''] @ [rated ''Unproven'']) = Inr 0"
    by code_simp
  show ?thesis
    using both_sets_counted_in_both [OF h1 h2 h3 h4 h5] h1 h2 h3 h4 h5 by simp
qed

text \<open>
  C2, as claimed: \<open>false_count + true_count \<le> len(evidence)\<close>. The single item rated
  "Half true, half false" is counted in both sums, and \<open>1 + 1 > 1\<close>.
\<close>

theorem tally_exceeds_length:
  "false_count_of [rated ''Half true, half false''] = Inr 1
   \<and> true_count_of [rated ''Half true, half false''] = Inr 1
   \<and> \<not> (1 + 1 \<le> length [rated ''Half true, half false''])"
  by code_simp

text \<open>
  C2, amended: for every list of evidence items (with string ratings) both counts are
  computed, each is at most the length of the list, and their sum is the length of the
  list, less the items matching neither set, plus the items matching both sets. So
  items matching neither set contribute to neither count, and
  \<open>false_count + true_count \<le> len(evidence)\<close> holds whenever no rating matches both sets.
\<close>

theorem tally_bound:
  assumes "\<forall>fc \<in> set fcs. is_str (rating fc)"
  shows "\<exists>f t. false_count_of fcs = Inr f \<and> true_count_of fcs = Inr t
           \<and> f = length (filter (says false_ratings) fcs)
           \<and> t = length (filter (says true_ratings) fcs)
           \<and> f \<le> length fcs \<and> t \<le> length fcs
           \<and> f + t + length (filter (\<lambda>fc. \<not> says false_ratings fc \<and> \<not> says true_ratings fc) fcs)
               = length fcs
                 + length (filter (\<lambda>fc. says false_ratings fc \<and> says true_ratings fc) fcs)
           \<and> ((\<forall>fc \<in> set fcs. \<not> (says false_ratings fc \<and> says true_ratings fc))
                \<longrightarrow> f + t \<le> length fcs)"
proof -
  let ?f = "length (filter (says false_ratings) fcs)"
  let ?t = "length (filter (says true_ratings) fcs)"
  have sum: "?f + ?t + length (filter (\<lambda>fc. \<not> says false_ratings fc \<and> \<not> says true_ratings fc) fcs)
      = length fcs + length (filter (\<lambda>fc. says false_ratings fc \<and> says true_ratings fc) fcs)"
    by (rule tally_filters)
  have none: "?f + ?t \<le> length fcs"
    if "\<forall>fc \<in> set fcs. \<not> (says false_ratings fc \<and> says true_ratings fc)"
  proof -
    have "filter (\<lambda>fc. says false_ratings fc \<and> says true_ratings fc) fcs = []"
      using that by (simp add: filter_empty_conv)
    with sum show ?thesis by simp
  qed
  show ?thesis
    using false_count_of_str [OF assms] true_count_of_str [OF assms] sum none by simp
qed

theorem tally_bound_witness:
  "list_all (\<lambda>fc. is_str (rating fc))
      [rated ''False'', rated ''Half true, half false'', rated ''Unproven'']
   \<and> false_count_of [rated ''False'', rated ''Half true, half false'', rated ''Unproven''] = Inr 2
   \<and> true_count_of [rated ''False'', rated ''Half true, half false'', rated ''Unproven''] = Inr 1
   \<and> (2::nat) \<le> 3"
proof -
  have h: "\<forall>fc \<in> set [rated ''False'', rated ''Half true, half false'', rated ''Unproven''].
      is_str (rating fc)"
    by (simp add: is_str_rated)
  have f: "false_count_of [rated ''False'', rated ''Half true, half false'', rated ''Unproven'']
      = Inr 2"
    by code_simp
  have t: "true_count_of [rated ''False'', rated ''Half true, half false'', rated ''Unproven'']
      = Inr 1"
    by code_simp
  show ?thesis
    using tally_bound [OF h] h f t by simp
qed

section \<open>Rounding\<close>

text \<open>
  \<open>ilog2\<close> is the binary exponent, so \<open>fl\<close> rounds on the grid of the binade of its
  argument; \<open>fl\<close> keeps the sign and never leaves \<open>[0, 1]\<close>.
\<close>

lemma round_half_even_bounds:
  "of_int (round_half_even y) \<le> y + 1 / 2" "y - 1 / 2 \<le> of_int (round_half_even y)"
  unfolding round_half_even_def Let_def by (auto simp: ) linarith+

lemma round_half_even_ge_floor: "\<lfloor>y\<rfloor> \<le> round_half_even y"
  unfolding round_half_even_def Let_def by auto

lemma round_half_even_nonneg: "0 \<le> y \<Longrightarrow> 0 \<le> round_half_even y"
  using round_half_even_ge_floor [of y] by (simp add: order_trans [of 0 "\<lfloor>y\<rfloor>"])

lemma round_half_even_of_int: "round_half_even (of_int n) = n"
  unfolding round_half_even_def Let_def by simp

lemma round_half_even_le_int:
  assumes "y \<le> of_int n"
  shows "round_half_even y \<le> n"
proof (cases "\<lfloor>y\<rfloor> = n")
  case True
  then have "y = of_int n" using assms
    by (metis floor_less_iff less_irrefl order.not_eq_order_implies_strict)
  then show ?thesis by (simp add: round_half_even_of_int)
next
  case False
  then have "\<lfloor>y\<rfloor> < n" using assms by (simp add: floor_le_iff floor_less_iff le_floor_iff less_le)
  moreover have "round_half_even y \<le> \<lfloor>y\<rfloor> + 1"
    unfolding round_half_even_def Let_def by auto
  ultimately show ?thesis by linarith
qed

lemma quotient_of_bitlen:
  assumes q: "quotient_of x = (p, q)" and pos: "0 < x"
  shows "2 powi (bitlen p - bitlen q - 1) \<le> x" "x < 2 powi (bitlen p - bitlen q + 1)"
proof -
  have q0: "0 < q" using q by (rule quotient_of_denom_pos)
  have x: "x = of_int p / of_int q" using q by (rule quotient_of_div)
  have p0: "0 < p" using pos q0 x by (simp add: zero_less_divide_iff)
  from bitlen_bounds [OF p0] have pl: "2 ^ nat (bitlen p - 1) \<le> p" and pu: "p < 2 ^ nat (bitlen p)"
    by simp_all
  from bitlen_bounds [OF q0] have ql: "2 ^ nat (bitlen q - 1) \<le> q" and qu: "q < 2 ^ nat (bitlen q)"
    by simp_all
  have bp: "0 < bitlen p" and bq: "0 < bitlen q"
    using p0 q0 bitlen_eq_zero_iff [of p] bitlen_eq_zero_iff [of q]
      bitlen_nonneg [of p] bitlen_nonneg [of q] by linarith+
  have pl': "(2::rat) powi (bitlen p - 1) \<le> of_int p"
  proof -
    have "(of_int (2 ^ nat (bitlen p - 1)) :: rat) \<le> of_int p" using pl by (simp only: of_int_le_iff)
    then show ?thesis using bp by (simp add: power_int_def)
  qed
  have pu': "of_int p < (2::rat) powi (bitlen p)"
  proof -
    have "(of_int p :: rat) < of_int (2 ^ nat (bitlen p))" using pu by (simp only: of_int_less_iff)
    then show ?thesis using bp by (simp add: power_int_def)
  qed
  have ql': "(2::rat) powi (bitlen q - 1) \<le> of_int q"
  proof -
    have "(of_int (2 ^ nat (bitlen q - 1)) :: rat) \<le> of_int q" using ql by (simp only: of_int_le_iff)
    then show ?thesis using bq by (simp add: power_int_def)
  qed
  have qu': "of_int q < (2::rat) powi (bitlen q)"
  proof -
    have "(of_int q :: rat) < of_int (2 ^ nat (bitlen q))" using qu by (simp only: of_int_less_iff)
    then show ?thesis using bq by (simp add: power_int_def)
  qed
  have q0': "(0::rat) < of_int q" using q0 by simp
  have "2 powi (bitlen p - bitlen q - 1) * of_int q \<le> (2::rat) powi (bitlen p - bitlen q - 1) * 2 powi (bitlen q)"
    using qu' by (simp add: mult_left_mono)
  also have "\<dots> = 2 powi (bitlen p - 1)"
    by (simp add: power_int_add [symmetric])
  also have "\<dots> \<le> of_int p" by (rule pl')
  finally show "2 powi (bitlen p - bitlen q - 1) \<le> x"
    using q0' by (simp add: x pos_le_divide_eq)
  have "of_int p < (2::rat) powi (bitlen p)" by (rule pu')
  also have "\<dots> = 2 powi (bitlen p - bitlen q + 1) * 2 powi (bitlen q - 1)"
    by (simp add: power_int_add [symmetric])
  also have "\<dots> \<le> 2 powi (bitlen p - bitlen q + 1) * of_int q"
    using ql' by (simp add: mult_left_mono)
  finally show "x < 2 powi (bitlen p - bitlen q + 1)"
    using q0' by (simp add: x pos_divide_less_eq)
qed

lemma ilog2_bounds:
  assumes "x \<noteq> 0"
  shows "2 powi (ilog2 x) \<le> \<bar>x\<bar>" "\<bar>x\<bar> < 2 powi (ilog2 x + 1)"
proof -
  obtain p q where q: "quotient_of \<bar>x\<bar> = (p, q)" by (cases "quotient_of \<bar>x\<bar>")
  have pos: "0 < \<bar>x\<bar>" using assms by simp
  note b = quotient_of_bitlen [OF q pos]
  show "2 powi (ilog2 x) \<le> \<bar>x\<bar>"
    using b(1) by (simp add: ilog2_def q Let_def)
  show "\<bar>x\<bar> < 2 powi (ilog2 x + 1)"
    using b(2) by (auto simp: ilog2_def q Let_def not_le)
qed


lemma fl_nonneg: "0 \<le> x \<Longrightarrow> 0 \<le> fl x"
  by (simp add: fl_def Let_def round_half_even_nonneg)

lemma fl_le_one:
  assumes "0 \<le> x" and "x \<le> 1"
  shows "fl x \<le> 1"
proof (cases "x = 0")
  case True
  then show ?thesis by (simp add: fl_def)
next
  case False
  define m where "m = max (ilog2 x) (- 1022)"
  define u :: rat where "u = 2 powi (m - 52)"
  have u0: "0 < u" by (simp add: u_def)
  have "2 powi (ilog2 x) \<le> \<bar>x\<bar>" using False by (rule ilog2_bounds)
  then have "(2::rat) powi (ilog2 x) \<le> 2 powi 0" using assms by simp
  then have "ilog2 x \<le> 0" by (rule power_int_le_imp_le_exp [rotated]) simp_all
  then have m0: "m \<le> 0" by (simp add: m_def)
  have inv: "1 / u = of_int (2 ^ nat (52 - m))"
    using m0 by (simp add: u_def power_int_def nat_diff_distrib field_simps)
  have "x / u \<le> 1 / u" using assms u0 by (simp add: divide_right_mono)
  then have "round_half_even (x / u) \<le> 2 ^ nat (52 - m)"
    unfolding inv by (rule round_half_even_le_int)
  then have "of_int (round_half_even (x / u)) \<le> (of_int (2 ^ nat (52 - m)) :: rat)"
    by (simp only: of_int_le_iff)
  then have "of_int (round_half_even (x / u)) * u \<le> (1 / u) * u"
    unfolding inv using u0 by (simp only: mult_right_mono less_imp_le)
  then show ?thesis using False u0 by (simp add: fl_def Let_def m_def u_def)
qed

text \<open>The model against CPython: the values of \<^verbatim>\<open>0.7\<close>, \<^verbatim>\<open>0.1\<close>, \<^verbatim>\<open>0.8\<close>,
  \<^verbatim>\<open>0.9 * 0.85\<close> (printed \<^verbatim>\<open>0.765\<close>) and \<^verbatim>\<open>0.7 + 0.1\<close> (printed
  \<^verbatim>\<open>0.7999999999999999\<close>), as \<^verbatim>\<open>fractions.Fraction\<close> gives them.\<close>

lemma fl_examples:
  "float_lit (7 / 10) = 3152519739159347 / 4503599627370496"
  "float_lit (1 / 10) = 3602879701896397 / 36028797018963968"
  "float_lit (8 / 10) = 3602879701896397 / 4503599627370496"
  "fmul (float_lit (9 / 10)) (float_lit (85 / 100)) = 6890507429876859 / 9007199254740992"
  "fadd (float_lit (7 / 10)) (float_lit (1 / 10)) = 7205759403792793 / 9007199254740992"
  by code_simp+

lemma float_lit_95: "0 \<le> float_lit (19 / 20)" "float_lit (19 / 20) \<le> 19 / 20"
  by code_simp+

lemma float_lit_85: "0 \<le> float_lit (17 / 20)" "float_lit (17 / 20) \<le> 1"
  by code_simp+

lemma float_lit_half: "float_lit (1 / 2) = 1 / 2"
  by code_simp

lemma float_lit_65_85: "float_lit (65 / 100) < float_lit (85 / 100)"
  by code_simp

lemma float_of_nat_nonneg: "0 \<le> float_of_nat n"
  by (simp add: float_of_nat_def fl_nonneg)

section \<open>The cascade\<close>

text \<open>One of the four \<^verbatim>\<open>if\<close> statements of the evidence block always returns.\<close>

lemma evidence_rules_Some: "evidence_rules l c f t \<noteq> None"
  by (simp add: evidence_rules_def)

lemma synthesize_str:
  assumes "\<forall>fc \<in> set fcs. is_str (rating fc)"
  shows "synthesize l c fcs =
    Inr (decide l c (fcs \<noteq> []) (length (filter (says false_ratings) fcs))
           (length (filter (says true_ratings) fcs)))"
proof (cases "fcs = []")
  case True
  then show ?thesis by (simp add: synthesize_def)
next
  case False
  then show ?thesis
    using false_count_of_str [OF assms] true_count_of_str [OF assms]
    by (simp add: synthesize_def)
qed

lemma synthesize_counts:
  assumes "fcs \<noteq> []" and "false_count_of fcs = Inr f" and "true_count_of fcs = Inr t"
  shows "synthesize l c fcs = Inr (decide l c True f t)"
  using assms by (simp add: synthesize_def)

lemma synthesize_Nil: "synthesize l c [] = Inr (ml_rules l c)"
  by (simp add: synthesize_def decide_def)

lemma synthesize_decide:
  assumes "synthesize l c fcs = Inr v"
  shows "\<exists>he f t. v = decide l c he f t"
  using assms by (auto simp: synthesize_def split: if_splits sum.splits)

lemma confidence_ml_rules: "confidence (ml_rules l c) = c"
  by (simp add: ml_rules_def)

text \<open>
  C3: for every non-empty evidence list in which every item is undetermined (its rating
  is a string matching neither set), both counts are zero and \<open>synthesize\<close> returns by
  the third or the fourth \<^verbatim>\<open>return\<close> of the evidence block, never by the rules for
  no evidence: the classifier's label with confidence \<^verbatim>\<open>ml_confidence * 0.85\<close> when
  \<^verbatim>\<open>ml_confidence > 0.8\<close>, and UNCERTAIN with confidence 0.5 otherwise.
\<close>

theorem undetermined_evidence_takes_tie_break:
  assumes "fcs \<noteq> []"
    and "\<forall>fc \<in> set fcs. is_str (rating fc) \<and> \<not> says false_ratings fc \<and> \<not> says true_ratings fc"
  shows "false_count_of fcs = Inr 0 \<and> true_count_of fcs = Inr 0
     \<and> (c > float_lit (8 / 10) \<longrightarrow>
          synthesize l c fcs = Inr \<lparr>verdict = l, confidence = fmul c (float_lit (85 / 100)),
                                    reasoning = MixedSignals l c\<rparr>)
     \<and> (c \<le> float_lit (8 / 10) \<longrightarrow>
          synthesize l c fcs = Inr \<lparr>verdict = ''UNCERTAIN'', confidence = 1 / 2,
                                    reasoning = Conflicting\<rparr>)"
proof -
  have str: "\<forall>fc \<in> set fcs. is_str (rating fc)" using assms(2) by simp
  have f: "filter (says false_ratings) fcs = []" using assms(2) by (simp add: filter_empty_conv)
  have t: "filter (says true_ratings) fcs = []" using assms(2) by (simp add: filter_empty_conv)
  have fc: "false_count_of fcs = Inr 0" using false_count_of_str [OF str] f by simp
  have tc: "true_count_of fcs = Inr 0" using true_count_of_str [OF str] t by simp
  show ?thesis
    using synthesize_counts [OF assms(1) fc tc] fc tc float_lit_half
    by (simp add: decide_def evidence_rules_def not_less)
qed

theorem undetermined_evidence_takes_tie_break_witness:
  "[rated ''Unproven''] \<noteq> []
   \<and> list_all (\<lambda>fc. is_str (rating fc) \<and> \<not> says false_ratings fc \<and> \<not> says true_ratings fc)
        [rated ''Unproven'']
   \<and> float_lit (9 / 10) > float_lit (8 / 10)
   \<and> synthesize ''REAL'' (float_lit (9 / 10)) [rated ''Unproven'']
       = Inr \<lparr>verdict = ''REAL'', confidence = fmul (float_lit (9 / 10)) (float_lit (85 / 100)),
              reasoning = MixedSignals ''REAL'' (float_lit (9 / 10))\<rparr>
   \<and> float_lit (6 / 10) \<le> float_lit (8 / 10)
   \<and> synthesize ''REAL'' (float_lit (6 / 10)) [rated ''Unproven'']
       = Inr \<lparr>verdict = ''UNCERTAIN'', confidence = 1 / 2, reasoning = Conflicting\<rparr>"
proof -
  have h1: "[rated ''Unproven''] \<noteq> []" by simp
  have u: "is_str (rating (rated ''Unproven'')) \<and> \<not> says false_ratings (rated ''Unproven'')
      \<and> \<not> says true_ratings (rated ''Unproven'')"
    by code_simp
  then have h2: "\<forall>fc \<in> set [rated ''Unproven''].
      is_str (rating fc) \<and> \<not> says false_ratings fc \<and> \<not> says true_ratings fc"
    by simp
  have g1: "float_lit (9 / 10) > float_lit (8 / 10)" by code_simp
  have g2: "float_lit (6 / 10) \<le> float_lit (8 / 10)" by code_simp
  note inst = undetermined_evidence_takes_tie_break [OF h1 h2]
  have a: "synthesize ''REAL'' (float_lit (9 / 10)) [rated ''Unproven'']
       = Inr \<lparr>verdict = ''REAL'', confidence = fmul (float_lit (9 / 10)) (float_lit (85 / 100)),
              reasoning = MixedSignals ''REAL'' (float_lit (9 / 10))\<rparr>"
    using inst [of "float_lit (9 / 10)" "''REAL''"] g1 by blast
  have b: "synthesize ''REAL'' (float_lit (6 / 10)) [rated ''Unproven'']
       = Inr \<lparr>verdict = ''UNCERTAIN'', confidence = 1 / 2, reasoning = Conflicting\<rparr>"
    using inst [of "float_lit (6 / 10)" "''REAL''"] g2 by blast
  show ?thesis using h1 u g1 g2 a b by simp
qed

text \<open>
  C4, as claimed: for the classifier's result (FAKE, 0.9) and the tally (1, 0) the
  confidence is 0.80. The code computes \<^verbatim>\<open>min(0.95, 0.7 + (1 * 0.1))\<close> in binary64
  arithmetic, where the sum of the floats \<^verbatim>\<open>0.7\<close> and \<^verbatim>\<open>0.1\<close> rounds to
  \<open>7205759403792793 / 2 ^ 53\<close>, printed \<^verbatim>\<open>0.7999999999999999\<close>, and not to the float
  \<^verbatim>\<open>0.8\<close>.
\<close>

theorem majority_false_confidence_is_not_080:
  "false_count_of [rated ''False''] = Inr 1
   \<and> true_count_of [rated ''False''] = Inr 0
   \<and> synthesize ''FAKE'' (float_lit (9 / 10)) [rated ''False'']
       = Inr \<lparr>verdict = ''FAKE'', confidence = 7205759403792793 / 9007199254740992,
              reasoning = RatedFalse 1\<rparr>
   \<and> 7205759403792793 / 9007199254740992 \<noteq> float_lit (80 / 100)"
  by code_simp

lemma rule1_at_one:
  "py_min (float_lit (95 / 100)) (fadd (float_lit (7 / 10)) (fmul (float_of_nat 1) (float_lit (1 / 10))))
     = 7205759403792793 / 9007199254740992"
  by code_simp

text \<open>
  C4, amended: for every non-empty evidence list whose tally satisfies
  \<open>false_count > true_count\<close>, \<open>synthesize\<close> returns the verdict FAKE with the confidence
  \<^verbatim>\<open>min(0.95, 0.7 + false_count * 0.1)\<close> evaluated in binary64 floating-point
  arithmetic; for the tally (1, 0) this confidence is \<open>7205759403792793 / 2 ^ 53\<close>
  (\<^verbatim>\<open>0.7999999999999999\<close>), which is \<open>1 / 2 ^ 53\<close> below the float \<^verbatim>\<open>0.8\<close>.
\<close>

theorem majority_false_is_fake:
  assumes "fcs \<noteq> []" and "false_count_of fcs = Inr f" and "true_count_of fcs = Inr t"
    and "f > t"
  shows "synthesize l c fcs =
           Inr \<lparr>verdict = ''FAKE'',
                confidence = py_min (float_lit (95 / 100))
                  (fadd (float_lit (7 / 10)) (fmul (float_of_nat f) (float_lit (1 / 10)))),
                reasoning = RatedFalse f\<rparr>
         \<and> (f = 1 \<longrightarrow> synthesize l c fcs =
               Inr \<lparr>verdict = ''FAKE'', confidence = 7205759403792793 / 9007199254740992,
                    reasoning = RatedFalse 1\<rparr>)
         \<and> float_lit (80 / 100) - 7205759403792793 / 9007199254740992 = 1 / 2 ^ 53"
proof -
  have gap: "float_lit (80 / 100) - 7205759403792793 / 9007199254740992 = 1 / 2 ^ 53"
    by code_simp
  have "synthesize l c fcs = Inr (decide l c True f t)"
    using assms(1-3) by (rule synthesize_counts)
  then have "synthesize l c fcs =
           Inr \<lparr>verdict = ''FAKE'',
                confidence = py_min (float_lit (95 / 100))
                  (fadd (float_lit (7 / 10)) (fmul (float_of_nat f) (float_lit (1 / 10)))),
                reasoning = RatedFalse f\<rparr>"
    using assms(4) by (simp add: decide_def evidence_rules_def)
  then show ?thesis
    using rule1_at_one gap by auto
qed

theorem majority_false_is_fake_witness:
  "[rated ''False''] \<noteq> []
   \<and> false_count_of [rated ''False''] = Inr 1
   \<and> true_count_of [rated ''False''] = Inr 0
   \<and> (1::nat) > 0
   \<and> synthesize ''FAKE'' (float_lit (9 / 10)) [rated ''False'']
       = Inr \<lparr>verdict = ''FAKE'', confidence = 7205759403792793 / 9007199254740992,
              reasoning = RatedFalse 1\<rparr>"
proof -
  have h1: "[rated ''False''] \<noteq> []" by simp
  have h2: "false_count_of [rated ''False''] = Inr 1" by code_simp
  have h3: "true_count_of [rated ''False''] = Inr 0" by code_simp
  have h4: "(1::nat) > 0" by simp
  show ?thesis
    using majority_false_is_fake [OF h1 h2 h3 h4, of "''FAKE''" "float_lit (9 / 10)"] h1 h2 h3
    by blast
qed

text \<open>
  C5: on the empty evidence list \<open>synthesize\<close> returns the classifier's label with the
  classifier's confidence when \<^verbatim>\<open>ml_confidence > 0.85\<close> (the high-confidence wording)
  and when \<^verbatim>\<open>0.65 < ml_confidence <= 0.85\<close> (the weaker wording), and UNCERTAIN with the
  classifier's confidence when \<^verbatim>\<open>ml_confidence <= 0.65\<close>.
\<close>

theorem no_evidence_follows_classifier:
  "(c > float_lit (85 / 100) \<longrightarrow>
      synthesize l c [] = Inr \<lparr>verdict = l, confidence = c, reasoning = NoFactChecksHigh l c\<rparr>)
   \<and> (float_lit (65 / 100) < c \<and> c \<le> float_lit (85 / 100) \<longrightarrow>
      synthesize l c [] = Inr \<lparr>verdict = l, confidence = c, reasoning = NoFactChecksLikely l c\<rparr>)
   \<and> (c \<le> float_lit (65 / 100) \<longrightarrow>
      synthesize l c [] =
        Inr \<lparr>verdict = ''UNCERTAIN'', confidence = c, reasoning = NeedsInvestigation c\<rparr>)"
  using float_lit_65_85 by (auto simp: synthesize_def decide_def ml_rules_def)

theorem no_evidence_follows_classifier_witness:
  "float_lit (9 / 10) > float_lit (85 / 100)
   \<and> synthesize ''FAKE'' (float_lit (9 / 10)) []
       = Inr \<lparr>verdict = ''FAKE'', confidence = float_lit (9 / 10),
              reasoning = NoFactChecksHigh ''FAKE'' (float_lit (9 / 10))\<rparr>
   \<and> float_lit (65 / 100) < float_lit (7 / 10) \<and> float_lit (7 / 10) \<le> float_lit (85 / 100)
   \<and> synthesize ''REAL'' (float_lit (7 / 10)) []
       = Inr \<lparr>verdict = ''REAL'', confidence = float_lit (7 / 10),
              reasoning = NoFactChecksLikely ''REAL'' (float_lit (7 / 10))\<rparr>
   \<and> float_lit (5 / 10) \<le> float_lit (65 / 100)
   \<and> synthesize ''FAKE'' (float_lit (5 / 10)) []
       = Inr \<lparr>verdict = ''UNCERTAIN'', confidence = float_lit (5 / 10),
              reasoning = NeedsInvestigation (float_lit (5 / 10))\<rparr>"
proof -
  have g1: "float_lit (9 / 10) > float_lit (85 / 100)" by code_simp
  have g2: "float_lit (65 / 100) < float_lit (7 / 10) \<and> float_lit (7 / 10) \<le> float_lit (85 / 100)"
    by code_simp
  have g3: "float_lit (5 / 10) \<le> float_lit (65 / 100)" by code_simp
  show ?thesis
    using no_evidence_follows_classifier [of "float_lit (9 / 10)" "''FAKE''"]
      no_evidence_follows_classifier [of "float_lit (7 / 10)" "''REAL''"]
      no_evidence_follows_classifier [of "float_lit (5 / 10)" "''FAKE''"] g1 g2 g3
    by blast
qed

lemma spec_guard_unique:
  "spec_guard j c he f t \<Longrightarrow> spec_guard k c he f t \<Longrightarrow> j = k"
  using float_lit_65_85 by (cases j; cases k) auto

lemma spec_guard_exists: "\<exists>k. spec_guard k c he f t"
proof (cases he)
  case True
  consider "f > t" | "t > f" | "f = t \<and> c > float_lit (80 / 100)"
    | "f = t \<and> c \<le> float_lit (80 / 100)"
    by fastforce
  then show ?thesis
  proof cases
    case 1 then show ?thesis using True by (intro exI [of _ Rule1]) simp
  next
    case 2 then show ?thesis using True by (intro exI [of _ Rule2]) simp
  next
    case 3 then show ?thesis using True by (intro exI [of _ Rule3]) simp
  next
    case 4 then show ?thesis using True by (intro exI [of _ Rule4]) simp
  qed
next
  case False
  consider "c > float_lit (85 / 100)" | "float_lit (65 / 100) < c \<and> c \<le> float_lit (85 / 100)"
    | "c \<le> float_lit (65 / 100)"
    by fastforce
  then show ?thesis
  proof cases
    case 1 then show ?thesis using False by (intro exI [of _ Rule5]) simp
  next
    case 2 then show ?thesis using False by (intro exI [of _ Rule6]) simp
  next
    case 3 then show ?thesis using False by (intro exI [of _ Rule7]) simp
  qed
qed

lemma decide_spec:
  assumes "spec_guard k c he f t"
  shows "(verdict (decide l c he f t), confidence (decide l c he f t)) = spec_verdict k l c f t"
  using assms float_lit_65_85
  by (cases k) (auto simp: decide_def evidence_rules_def ml_rules_def mult.commute fmul_def)

text \<open>
  C6: for every label, confidence, tally and evidence flag exactly one rule of the
  specification's cascade applies, and the cascade of the code returns the verdict and
  the confidence of that rule; \<open>synthesize\<close> itself returns, with the result of the
  cascade at the two counts, for every list of evidence items with string ratings.
  Nothing is assumed of the label or the confidence.
\<close>

theorem cascade_total:
  "(\<exists>!k. spec_guard k c he f t)
   \<and> (\<forall>k. spec_guard k c he f t \<longrightarrow>
         (verdict (decide l c he f t), confidence (decide l c he f t)) = spec_verdict k l c f t)
   \<and> ((\<forall>fc \<in> set fcs. is_str (rating fc)) \<longrightarrow>
        synthesize l c fcs =
          Inr (decide l c (fcs \<noteq> []) (length (filter (says false_ratings) fcs))
                 (length (filter (says true_ratings) fcs))))"
proof -
  have "\<exists>!k. spec_guard k c he f t"
    using spec_guard_exists [of c he f t] spec_guard_unique [of _ c he f t] by blast
  then show ?thesis
    using decide_spec synthesize_str by blast
qed

theorem cascade_total_witness:
  "spec_guard Rule4 (float_lit (6 / 10)) True 1 1
   \<and> (verdict (decide ''REAL'' (float_lit (6 / 10)) True 1 1),
       confidence (decide ''REAL'' (float_lit (6 / 10)) True 1 1))
      = spec_verdict Rule4 ''REAL'' (float_lit (6 / 10)) 1 1
   \<and> list_all (\<lambda>fc. is_str (rating fc)) [rated ''True'', rated ''False'']
   \<and> synthesize ''REAL'' (float_lit (6 / 10)) [rated ''True'', rated ''False'']
      = Inr (decide ''REAL'' (float_lit (6 / 10)) True 1 1)"
proof -
  have g: "spec_guard Rule4 (float_lit (6 / 10)) True 1 1" by code_simp
  have h: "\<forall>fc \<in> set [rated ''True'', rated ''False'']. is_str (rating fc)"
    by (simp add: is_str_rated)
  have n: "length (filter (says false_ratings) [rated ''True'', rated ''False'']) = 1"
    "length (filter (says true_ratings) [rated ''True'', rated ''False'']) = 1"
    by code_simp+
  note inst = cascade_total [of "float_lit (6 / 10)" True 1 1 "''REAL''"
      "[rated ''True'', rated ''False'']"]
  have a: "(verdict (decide ''REAL'' (float_lit (6 / 10)) True 1 1),
       confidence (decide ''REAL'' (float_lit (6 / 10)) True 1 1))
      = spec_verdict Rule4 ''REAL'' (float_lit (6 / 10)) 1 1"
    using inst g by blast
  have "synthesize ''REAL'' (float_lit (6 / 10)) [rated ''True'', rated ''False'']
      = Inr (decide ''REAL'' (float_lit (6 / 10)) ([rated ''True'', rated ''False''] \<noteq> [])
          (length (filter (says false_ratings) [rated ''True'', rated ''False'']))
          (length (filter (says true_ratings) [rated ''True'', rated ''False''])))"
    using inst h by blast
  then have b: "synthesize ''REAL'' (float_lit (6 / 10)) [rated ''True'', rated ''False'']
      = Inr (decide ''REAL'' (float_lit (6 / 10)) True 1 1)"
    unfolding n by simp
  show ?thesis using g a b h by (simp add: is_str_rated)
qed

lemma majority_confidence:
  "0 \<le> py_min (float_lit (95 / 100))
      (fadd (float_lit (7 / 10)) (fmul (float_of_nat n) (float_lit (1 / 10))))"
  "py_min (float_lit (95 / 100))
      (fadd (float_lit (7 / 10)) (fmul (float_of_nat n) (float_lit (1 / 10))))
     \<le> float_lit (95 / 100)"
proof -
  have "0 \<le> fmul (float_of_nat n) (float_lit (1 / 10))"
    by (simp add: fmul_def float_lit_def fl_nonneg float_of_nat_nonneg)
  moreover have "0 \<le> float_lit (7 / 10)" by (simp add: float_lit_def fl_nonneg)
  ultimately have "0 \<le> fadd (float_lit (7 / 10)) (fmul (float_of_nat n) (float_lit (1 / 10)))"
    by (simp add: fadd_def fl_nonneg)
  then show "0 \<le> py_min (float_lit (95 / 100))
      (fadd (float_lit (7 / 10)) (fmul (float_of_nat n) (float_lit (1 / 10))))"
    using float_lit_95(1) by (simp add: py_min_def)
  show "py_min (float_lit (95 / 100))
      (fadd (float_lit (7 / 10)) (fmul (float_of_nat n) (float_lit (1 / 10)))) \<le> float_lit (95 / 100)"
    by (simp add: py_min_def)
qed

lemma tie_confidence:
  assumes "0 \<le> c" and "c \<le> 1"
  shows "0 \<le> fmul c (float_lit (85 / 100))" "fmul c (float_lit (85 / 100)) \<le> 1"
proof -
  have p0: "0 \<le> c * float_lit (85 / 100)" using assms(1) float_lit_85(1) by simp
  have "c * float_lit (85 / 100) \<le> 1 * 1"
    using assms float_lit_85 by (intro mult_mono) simp_all
  then have p1: "c * float_lit (85 / 100) \<le> 1" by simp
  show "0 \<le> fmul c (float_lit (85 / 100))" using p0 by (simp add: fmul_def fl_nonneg)
  show "fmul c (float_lit (85 / 100)) \<le> 1" using p0 p1 by (simp add: fmul_def fl_le_one)
qed

lemma decide_confidence:
  assumes "0 \<le> c" and "c \<le> 1"
  shows "0 \<le> confidence (decide l c he f t)" "confidence (decide l c he f t) \<le> 1"
proof -
  have le1: "py_min (float_lit (95 / 100)) x \<le> 1" for x
    using float_lit_95(2) by (simp add: py_min_def)
  show "0 \<le> confidence (decide l c he f t)"
    using assms tie_confidence(1) [OF assms] majority_confidence(1)
    by (simp add: decide_def evidence_rules_def ml_rules_def float_lit_half del: of_nat_Suc)
  show "confidence (decide l c he f t) \<le> 1"
    using assms tie_confidence(2) [OF assms] le1
    by (simp add: decide_def evidence_rules_def ml_rules_def float_lit_half)
qed

lemma decide_majority:
  assumes "he" and "f \<noteq> t"
  shows "confidence (decide l c he f t) \<le> float_lit (95 / 100)"
  using assms majority_confidence(2) by (auto simp: decide_def evidence_rules_def)

text \<open>
  C7: when the classifier's confidence lies in \<open>[0, 1]\<close>, so does the confidence the
  cascade returns, for every label, tally and evidence flag, and so does the confidence
  of whatever \<open>synthesize\<close> returns; where the evidence has a majority (the counts
  differ) it is at most the float \<^verbatim>\<open>0.95\<close>, which is below \<open>95 / 100\<close>.
\<close>

theorem confidence_bounds:
  assumes "0 \<le> c" and "c \<le> 1"
  shows "0 \<le> confidence (decide l c he f t) \<and> confidence (decide l c he f t) \<le> 1
    \<and> (he \<and> f \<noteq> t \<longrightarrow> confidence (decide l c he f t) \<le> float_lit (95 / 100))
    \<and> float_lit (95 / 100) \<le> 95 / 100
    \<and> (synthesize l c fcs = Inr v \<longrightarrow> 0 \<le> confidence v \<and> confidence v \<le> 1)"
proof -
  have "0 \<le> confidence v \<and> confidence v \<le> 1" if syn: "synthesize l c fcs = Inr v"
  proof -
    obtain he' f' t' where "v = decide l c he' f' t'"
      using synthesize_decide [OF syn] by blast
    then show ?thesis using decide_confidence [OF assms] by simp
  qed
  moreover have "float_lit (95 / 100) \<le> 95 / 100"
    using float_lit_95(2) by simp
  ultimately show ?thesis
    using decide_confidence [OF assms] decide_majority by blast
qed

theorem confidence_bounds_witness:
  "0 \<le> float_lit (9 / 10) \<and> float_lit (9 / 10) \<le> 1
   \<and> (3::nat) \<noteq> 0
   \<and> confidence (decide ''FAKE'' (float_lit (9 / 10)) True 3 0) \<le> float_lit (95 / 100)
   \<and> 0 \<le> confidence (decide ''FAKE'' (float_lit (9 / 10)) True 3 0)
   \<and> synthesize ''FAKE'' (float_lit (9 / 10)) [rated ''False'']
       = Inr \<lparr>verdict = ''FAKE'', confidence = 7205759403792793 / 9007199254740992,
              reasoning = RatedFalse 1\<rparr>
   \<and> confidence \<lparr>verdict = ''FAKE'', confidence = 7205759403792793 / 9007199254740992,
              reasoning = RatedFalse 1\<rparr> \<le> 1"
proof -
  have h1: "0 \<le> float_lit (9 / 10)" by code_simp
  have h2: "float_lit (9 / 10) \<le> 1" by code_simp
  have s: "synthesize ''FAKE'' (float_lit (9 / 10)) [rated ''False'']
       = Inr \<lparr>verdict = ''FAKE'', confidence = 7205759403792793 / 9007199254740992,
              reasoning = RatedFalse 1\<rparr>"
    by code_simp
  show ?thesis
    using confidence_bounds [OF h1 h2, of "''FAKE''" True 3 0 "[rated ''False'']"
        "\<lparr>verdict = ''FAKE'', confidence = 7205759403792793 / 9007199254740992,
              reasoning = RatedFalse 1\<rparr>"] h1 h2 s
    by simp
qed

section \<open>The services and the endpoint\<close>

text \<open>Two answers of the external API: one claim with one review, which becomes one
  evidence item; and a review list with a \<open>null\<close> in it, where the loop raises and the
  item already built is lost with the rest.\<close>

lemma check_claims_example:
  "check_claims ''k3y''
     (\<lambda>req. Response 200 (Some (JObj [(''claims'', JArr [JObj [(''text'', JStr ''The moon is cheese''),
        (''claimReview'', JArr [JObj [(''publisher'', JObj [(''name'', JStr ''Checker'')]),
           (''textualRating'', JStr ''False'')]])]])])))
     ''The moon is cheese, they say''
   = ([\<lparr>claim = JStr ''The moon is cheese'', claimant = JStr ''Unknown'', rating = JStr ''False'',
        source = JStr ''Checker'', url = JNull\<rparr>],
      [\<lparr>query = ''The moon is cheese, they say'', key = ''k3y'', languageCode = ''en''\<rparr>])"
  by code_simp

lemma check_claims_malformed_example:
  "check_claims ''k3y''
     (\<lambda>req. Response 200 (Some (JObj [(''claims'', JArr [JObj [(''text'', JStr ''The moon is cheese''),
        (''claimReview'', JArr [JObj [(''textualRating'', JStr ''False'')], JNull])]])])))
     ''The moon is cheese, they say''
   = ([], [\<lparr>query = ''The moon is cheese, they say'', key = ''k3y'', languageCode = ''en''\<rparr>])"
  by code_simp

lemma read_response_failed:
  "retrieval_failed outcome \<Longrightarrow>
   read_response outcome = Inr [] \<or> (\<exists>e. read_response outcome = Inl e)"
  by (cases outcome) (simp_all add: retrieval_failed_def read_response_def)

lemma check_claims_failed:
  assumes "retrieval_failed (api (the_request api_key news))"
  shows "fst (check_claims api_key api news) = []"
  using read_response_failed [OF assms]
  by (auto simp: check_claims_def split: sum.splits)

lemma analyze_text_evidence:
  "fst (analyze_text ml api_key api pt news) =
     (case ml news of
        Inl e \<Rightarrow> Inl (HTTPException 500 e)
      | Inr r \<Rightarrow>
          (case synthesize_and_respond r (fst (check_claims api_key api news)) pt of
             Inl e \<Rightarrow> Inl (HTTPException 500 e)
           | Inr response \<Rightarrow> Inr response))"
  by (simp add: analyze_text_def split: sum.splits prod.splits)

lemma respond_no_evidence:
  assumes "0 \<le> prediction_confidence r" and "prediction_confidence r \<le> 1"
  shows "synthesize_and_respond r [] pt =
     Inr \<lparr>verdict = verdict (ml_rules (prediction r) (prediction_confidence r)),
          confidence = prediction_confidence r,
          reasoning = reasoning (ml_rules (prediction r) (prediction_confidence r)),
          ml_prediction = prediction r, ml_confidence = prediction_confidence r,
          fact_checks = [], processing_time_ms = pt\<rparr>"
  using assms
  by (simp add: synthesize_and_respond_def synthesize_Nil AnalyzeResponse_def confidence_ml_rules)

text \<open>
  C8: when the request to the external API raises (a timeout or another error) or the
  response is not a success, \<open>check_claims\<close> yields the empty list, and the analysis is
  the analysis of the same request with the empty evidence list; it is also the
  analysis obtained when the API answers and has found nothing. When the classifier has
  returned a result with a confidence in \<open>[0, 1]\<close>, the request does not fail: the
  response carries the verdict of the rules on the classifier's confidence alone and no
  evidence.
\<close>

theorem retrieval_failure_degrades:
  assumes "retrieval_failed (api (the_request api_key news))"
  shows "fst (check_claims api_key api news) = []
    \<and> fst (analyze_text ml api_key api pt news)
        = (case ml news of
             Inl e \<Rightarrow> Inl (HTTPException 500 e)
           | Inr r \<Rightarrow>
               (case synthesize_and_respond r [] pt of
                  Inl e \<Rightarrow> Inl (HTTPException 500 e)
                | Inr response \<Rightarrow> Inr response))
    \<and> fst (analyze_text ml api_key api pt news)
        = fst (analyze_text ml api_key (\<lambda>req. Response 200 (Some (JObj []))) pt news)
    \<and> (ml news = Inr r \<and> 0 \<le> prediction_confidence r \<and> prediction_confidence r \<le> 1 \<longrightarrow>
         fst (analyze_text ml api_key api pt news)
           = Inr \<lparr>verdict = verdict (ml_rules (prediction r) (prediction_confidence r)),
                  confidence = prediction_confidence r,
                  reasoning = reasoning (ml_rules (prediction r) (prediction_confidence r)),
                  ml_prediction = prediction r, ml_confidence = prediction_confidence r,
                  fact_checks = [], processing_time_ms = pt\<rparr>)"
proof -
  have a: "fst (check_claims api_key api news) = []"
    using assms by (rule check_claims_failed)
  have b: "fst (check_claims api_key (\<lambda>req. Response 200 (Some (JObj []))) news) = []"
    by (simp add: check_claims_def read_response_def parse_results_def)
  have c: "fst (analyze_text ml api_key api pt news)
        = (case ml news of
             Inl e \<Rightarrow> Inl (HTTPException 500 e)
           | Inr r \<Rightarrow>
               (case synthesize_and_respond r [] pt of
                  Inl e \<Rightarrow> Inl (HTTPException 500 e)
                | Inr response \<Rightarrow> Inr response))"
    unfolding analyze_text_evidence a ..
  have d: "fst (analyze_text ml api_key (\<lambda>req. Response 200 (Some (JObj []))) pt news)
        = (case ml news of
             Inl e \<Rightarrow> Inl (HTTPException 500 e)
           | Inr r \<Rightarrow>
               (case synthesize_and_respond r [] pt of
                  Inl e \<Rightarrow> Inl (HTTPException 500 e)
                | Inr response \<Rightarrow> Inr response))"
    unfolding analyze_text_evidence b ..
  show ?thesis
    using a c d respond_no_evidence [of r pt] by simp
qed

theorem retrieval_failure_degrades_witness:
  "retrieval_failed ((\<lambda>req. Raises TimeoutException) (the_request ''k3y'' ''The moon is cheese''))
   \<and> fst (check_claims ''k3y'' (\<lambda>req. Raises TimeoutException) ''The moon is cheese'') = []
   \<and> fst (analyze_text
        (\<lambda>t. Inr \<lparr>prediction = ''FAKE'', prediction_confidence = float_lit (9 / 10)\<rparr>)
        ''k3y'' (\<lambda>req. Raises TimeoutException) 12 ''The moon is cheese'')
      = Inr \<lparr>verdict = ''FAKE'', confidence = float_lit (9 / 10),
             reasoning = NoFactChecksHigh ''FAKE'' (float_lit (9 / 10)),
             ml_prediction = ''FAKE'', ml_confidence = float_lit (9 / 10),
             fact_checks = [], processing_time_ms = 12\<rparr>"
proof -
  let ?r = "\<lparr>prediction = ''FAKE'', prediction_confidence = float_lit (9 / 10)\<rparr>"
  have h: "retrieval_failed
      ((\<lambda>req. Raises TimeoutException) (the_request ''k3y'' ''The moon is cheese''))"
    by (simp add: retrieval_failed_def)
  have b: "0 \<le> float_lit (9 / 10)" "float_lit (9 / 10) \<le> 1" by code_simp+
  have m: "ml_rules ''FAKE'' (float_lit (9 / 10))
      = \<lparr>verdict = ''FAKE'', confidence = float_lit (9 / 10),
         reasoning = NoFactChecksHigh ''FAKE'' (float_lit (9 / 10))\<rparr>"
    by code_simp
  note inst = retrieval_failure_degrades [where api = "\<lambda>req. Raises TimeoutException"
      and api_key = "''k3y''" and news = "''The moon is cheese''" and ml = "\<lambda>t. Inr ?r"
      and r = ?r and pt = 12]
  note first = inst [OF h, THEN conjunct1]
  note last = inst [OF h, THEN conjunct2, THEN conjunct2, THEN conjunct2]
  show ?thesis
    using first last h b by (simp add: m)
qed

text \<open>
  C9: when the call of \<^verbatim>\<open>predict\<close> raises (loading the model or the inference has
  raised, and \<^verbatim>\<open>predict\<close> re-raises), \<open>analyze_text\<close> raises one \<open>HTTPException\<close> with
  status 500 that carries the error; no response is built, and no request has been
  sent to the fact-check API.
\<close>

theorem classifier_failure_is_fatal:
  assumes "ml news = predict initialized load_error inference"
    and "predict initialized load_error inference = Inl e"
  shows "analyze_text ml api_key api pt news = (Inl (HTTPException 500 e), [])
    \<and> ((if initialized then None else load_error) = Some e \<or> inference = Inl e)"
proof -
  have "analyze_text ml api_key api pt news = (Inl (HTTPException 500 e), [])"
    using assms by (simp add: analyze_text_def)
  moreover have "(if initialized then None else load_error) = Some e \<or> inference = Inl e"
    using assms(2) by (auto simp: predict_def split: option.splits sum.splits if_splits)
  ultimately show ?thesis by simp
qed

theorem classifier_failure_is_fatal_witness:
  "predict True None (Inl ModelError) = Inl ModelError
   \<and> analyze_text (\<lambda>t. predict True None (Inl ModelError)) ''k3y''
        (\<lambda>req. Response 200 (Some (JObj []))) 12 ''The moon is cheese''
      = (Inl (HTTPException 500 ModelError), [])"
proof -
  have h: "predict True None (Inl ModelError) = Inl ModelError"
    by (simp add: predict_def)
  note inst = classifier_failure_is_fatal [where ml = "\<lambda>t. predict True None (Inl ModelError)"
      and news = "''The moon is cheese''"]
  show ?thesis
    using inst [OF refl h] h
    by simp
qed

text \<open>
  C10: when the environment variable is unset, empty or the placeholder
  \<^verbatim>\<open>your_api_key_here\<close>, \<open>check_claims\<close> returns the empty list for every text and sends
  no request, whatever the external API would answer; every analysis then is the
  response built from the rules on the classifier's confidence alone (or the error of
  the classifier or of the validation).
\<close>

theorem unconfigured_key_sends_nothing:
  assumes "env = None \<or> env = Some [] \<or> env = Some ''your_api_key_here''"
  shows "check_claims (api_key_of_env env) api news = ([], [])
    \<and> analyze_text ml (api_key_of_env env) api pt news
        = (case ml news of
             Inl e \<Rightarrow> (Inl (HTTPException 500 e), [])
           | Inr r \<Rightarrow>
               (case AnalyzeResponse (ml_rules (prediction r) (prediction_confidence r)) r [] pt of
                  Inl e \<Rightarrow> (Inl (HTTPException 500 e), [])
                | Inr response \<Rightarrow> (Inr response, [])))"
proof -
  have k: "api_key_of_env env = [] \<or> api_key_of_env env = ''your_api_key_here''"
    using assms by (auto simp: api_key_of_env_def)
  then have c: "check_claims (api_key_of_env env) api news = ([], [])"
    by (auto simp: check_claims_def)
  show ?thesis
    using c by (simp add: analyze_text_def synthesize_and_respond_def synthesize_Nil
        split: sum.splits)
qed

theorem unconfigured_key_sends_nothing_witness:
  "api_key_of_env (Some ''your_api_key_here'') = ''your_api_key_here''
   \<and> check_claims (api_key_of_env (Some ''your_api_key_here''))
       (\<lambda>req. Response 200 (Some (JObj [(''claims'', JArr [JObj [(''text'', JStr ''The moon is cheese''),
          (''claimReview'', JArr [JObj [(''textualRating'', JStr ''False'')]])]])])))
       ''The moon is cheese''
      = ([], [])
   \<and> check_claims (api_key_of_env None)
       (\<lambda>req. Response 200 (Some (JObj [(''claims'', JArr [JObj [(''text'', JStr ''The moon is cheese''),
          (''claimReview'', JArr [JObj [(''textualRating'', JStr ''False'')]])]])])))
       ''The moon is cheese''
      = ([], [])"
proof -
  have h1: "Some ''your_api_key_here'' = None \<or> Some ''your_api_key_here'' = Some []
      \<or> Some ''your_api_key_here'' = Some ''your_api_key_here''"
    by simp
  have h2: "(None :: string option) = None \<or> None = Some [] \<or> None = Some ''your_api_key_here''"
    by simp
  show ?thesis
    using unconfigured_key_sends_nothing [OF h1] unconfigured_key_sends_nothing [OF h2]
    by (simp add: api_key_of_env_def)
qed

end
